theory Spec2Isabelle
  imports Main "HOL-Library.Word"
begin

section \<open>Errors and strings\<close>

text \<open>
  Go strings and byte slices are sequences of bytes. An error is represented by the
  message its \<open>Error()\<close> method returns, which is all the code ever inspects.
  \<open>NewError\<close> and \<open>Base\<close> are \<open>common/error.go\<close>.
\<close>

type_synonym bytes = "char list"
type_synonym error = string

definition NewError :: "string \<Rightarrow> error" where
  "NewError info = info"

definition Base :: "error \<Rightarrow> error option \<Rightarrow> error" where
  "Base e err = (case err of None \<Rightarrow> e | Some b \<Rightarrow> e @ '' | '' @ b)"

text \<open>The two sentinel errors of package \<open>io\<close> that \<open>io.ReadFull\<close> can return.\<close>

definition EOF :: error where
  "EOF = ''EOF''"

definition ErrUnexpectedEOF :: error where
  "ErrUnexpectedEOF = ''unexpected EOF''"

text \<open>\<open>strings.HasPrefix\<close>, \<open>strings.HasSuffix\<close> and \<open>strings.Contains\<close>.\<close>

definition HasPrefix :: "string \<Rightarrow> string \<Rightarrow> bool" where
  "HasPrefix s p = (length p \<le> length s \<and> take (length p) s = p)"

definition HasSuffix :: "string \<Rightarrow> string \<Rightarrow> bool" where
  "HasSuffix s suf = (length suf \<le> length s \<and> drop (length s - length suf) s = suf)"

fun Contains :: "string \<Rightarrow> string \<Rightarrow> bool" where
  "Contains [] sub = (sub = [])"
| "Contains (c # s) sub = (HasPrefix (c # s) sub \<or> Contains s sub)"

text \<open>
  A value a Go function hands back, or the panic that ends it instead.
\<close>

datatype 'a goResult = Panic string | Returns 'a

section \<open>SNI matching (tunnel/tls/server.go)\<close>

text \<open>
  \<open>domainPrefixLen\<close> is a Go \<open>int\<close> and may be negative, so it is an \<open>int\<close> here; the
  slice \<open>domainName[:domainPrefixLen]\<close> is only evaluated after \<open>domainPrefixLen > 0\<close>
  and \<open>HasSuffix\<close> have held, where it is in range.
\<close>

definition isDomainNameMatched :: "string \<Rightarrow> string \<Rightarrow> bool" where
  "isDomainNameMatched pattern domainName =
     (if HasPrefix pattern ''*.'' then
        (let suffix = drop 2 pattern;
             domainPrefixLen = int (length domainName) - int (length suffix) - 1
         in HasSuffix domainName suffix \<and> domainPrefixLen > 0 \<and>
            \<not> Contains (take (nat domainPrefixLen) domainName) ''.'')
      else pattern = domainName)"

text \<open>
  The matching rule in the words of the specification, for comparison: the candidate ends
  with the suffix, there is at least one extra leading character before the suffix, and
  that extra part contains no dot; exact match for every other pattern.
\<close>

definition spec_isMatch :: "string \<Rightarrow> string \<Rightarrow> bool" where
  "spec_isMatch pattern domainName =
     (if HasPrefix pattern ''*.'' then
        (let suffix = drop 2 pattern;
             extra = take (length domainName - length suffix) domainName
         in HasSuffix domainName suffix \<and> 1 \<le> length extra \<and> \<not> Contains extra ''.'')
      else pattern = domainName)"

section \<open>Connections\<close>

text \<open>
  A \<open>net.Conn\<close> as the server sees it: the bytes the peer sends, in the segments in which
  they arrive, and the peer's address. One \<open>Read\<close> returns bytes of one segment only, at
  most as many as asked for; when no segment is left the peer has closed and \<open>Read\<close>
  returns \<open>io.EOF\<close>.
\<close>

record netConn =
  segments :: "bytes list"
  remoteAddr :: string

definition netRead :: "nat \<Rightarrow> netConn \<Rightarrow> (bytes \<times> error option) \<times> netConn" where
  "netRead n c =
     (case segments c of
        [] \<Rightarrow> (([], Some EOF), c)
      | seg # rest \<Rightarrow>
          if length seg \<le> n then ((seg, None), c\<lparr>segments := rest\<rparr>)
          else ((take n seg, None), c\<lparr>segments := drop n seg # rest\<rparr>))"

subsection \<open>The rewind connection\<close>

text \<open>
  Modelled from the spec: \<open>common.RewindConn\<close> (\<open>NewRewindConn\<close>, \<open>SetBufferSize\<close>,
  \<open>Rewind\<close>, \<open>StopBuffering\<close>, \<open>Read\<close>) is used by every server but is not among the
  sources. The specification gives its state as \<open>{buffer, index, buffering}\<close> with a
  configured capacity: while buffering, a read appends to the buffer and advances the
  index; \<open>Rewind\<close> resets the index to 0; after \<open>StopBuffering\<close> reads drain the buffered
  bytes that remain and then pass through to the underlying stream; a read that would
  take the buffer over its capacity fails with \<open>BufferOverflow\<close>. The failing read leaves
  the connection as it was, since the specification demands that a rewound connection
  replays what was read and then continues with the underlying stream unchanged.
\<close>

definition BufferOverflow :: error where
  "BufferOverflow = ''BufferOverflow''"

record RewindConn =
  rawConn :: netConn
  buf :: bytes
  index :: nat
  buffering :: bool
  bufferSize :: nat

definition NewRewindConn :: "netConn \<Rightarrow> RewindConn" where
  "NewRewindConn c = \<lparr>rawConn = c, buf = [], index = 0, buffering = False, bufferSize = 0\<rparr>"

definition SetBufferSize :: "nat \<Rightarrow> RewindConn \<Rightarrow> RewindConn" where
  "SetBufferSize n rc = rc\<lparr>buffering := True, bufferSize := n\<rparr>"

definition Rewind :: "RewindConn \<Rightarrow> RewindConn" where
  "Rewind rc = rc\<lparr>index := 0\<rparr>"

definition StopBuffering :: "RewindConn \<Rightarrow> RewindConn" where
  "StopBuffering rc = rc\<lparr>buffering := False\<rparr>"

definition RemoteAddr :: "RewindConn \<Rightarrow> string" where
  "RemoteAddr rc = remoteAddr (rawConn rc)"

definition Read :: "nat \<Rightarrow> RewindConn \<Rightarrow> (bytes \<times> error option) \<times> RewindConn" where
  "Read n rc =
     (if index rc < length (buf rc) then
        (let d = take n (drop (index rc) (buf rc))
         in ((d, None), rc\<lparr>index := index rc + length d\<rparr>))
      else
        (case netRead n (rawConn rc) of
           ((d, err), raw') \<Rightarrow>
             if buffering rc then
               (if bufferSize rc < length (buf rc) + length d
                then (([], Some BufferOverflow), rc)
                else ((d, err),
                      rc\<lparr>rawConn := raw', buf := buf rc @ d, index := index rc + length d\<rparr>))
             else ((d, err), rc\<lparr>rawConn := raw'\<rparr>)))"

text \<open>
  What is still to be read from a connection: the measure under which the read loops
  below terminate.
\<close>

definition pending :: "RewindConn \<Rightarrow> nat" where
  "pending rc =
     (length (buf rc) - index rc) +
     sum_list (map (\<lambda>seg. Suc (length seg)) (segments (rawConn rc)))"

text \<open>
  \<open>io.ReadAtLeast\<close>: the loop \<open>for n < min && err == nil\<close>, then \<open>err = nil\<close> when
  enough was read and \<open>ErrUnexpectedEOF\<close> in place of \<open>EOF\<close> after a partial read.
  \<open>io.ReadFull(r, buf)\<close> is \<open>ReadAtLeast(r, buf, len(buf))\<close>.
\<close>

function ReadAtLeast :: "bytes \<Rightarrow> nat \<Rightarrow> RewindConn \<Rightarrow> (bytes \<times> error option) \<times> RewindConn" where
  "ReadAtLeast got need rc =
     (if need \<le> length got then ((got, None), rc)
      else
        (case Read (need - length got) rc of
           ((d, None), rc') \<Rightarrow> ReadAtLeast (got @ d) need rc'
         | ((d, Some e), rc') \<Rightarrow>
             if need \<le> length (got @ d) then ((got @ d, None), rc')
             else ((got @ d,
                    Some (if got @ d \<noteq> [] \<and> e = EOF then ErrUnexpectedEOF else e)), rc')))"
  by pat_completeness auto
termination
  by (relation "measure (\<lambda>(got, need, rc). pending rc)")
     (auto simp: Read_def netRead_def pending_def Let_def
           split: if_splits list.splits prod.splits)

declare ReadAtLeast.simps [simp del]

definition ReadFull :: "nat \<Rightarrow> RewindConn \<Rightarrow> (bytes \<times> error option) \<times> RewindConn" where
  "ReadFull n rc = ReadAtLeast [] n rc"

text \<open>
  Modelled from the spec: the redirector (\<open>redirector.Redirect\<close>, not among the sources)
  dials the address of a redirection and copies the inbound connection to it. \<open>Copy\<close> is
  that copy in the direction from the client to the fallback origin: the bytes of every
  read, in order, until a read fails (\<open>io.Copy\<close> with its buffer of 32 KiB).
\<close>

function Copy :: "RewindConn \<Rightarrow> bytes" where
  "Copy rc =
     (case Read 32768 rc of
        ((d, None), rc') \<Rightarrow> d @ Copy rc'
      | ((d, Some e), rc') \<Rightarrow> d)"
  by pat_completeness auto
termination
  by (relation "measure pending")
     (auto simp: Read_def netRead_def pending_def Let_def
           split: if_splits list.splits prod.splits)

declare Copy.simps [simp del]

text \<open>
  \<open>tunnel.Address\<close>, and a \<open>redirector.Redirection\<close>: the connection handed over and the
  address to dial (a pointer in the source, \<open>nil\<close> when no fallback is configured).
\<close>

record Address =
  AddressType :: "8 word"
  DomainName :: string
  IP :: bytes
  Port :: nat

datatype Conn = Plain netConn | Rewound RewindConn

record Redirection =
  InboundConn :: Conn
  RedirectTo :: "Address option"

section \<open>Library calls\<close>

text \<open>
  The servers call into the Go standard library and \<open>x/net/websocket\<close>. What these calls
  return is an input of the model: \<open>Handshake\<close> is \<open>tls.Server(conn, cfg).Handshake()\<close>
  (its error, the connection after the records it read, and the decrypted stream),
  \<open>ReadRequest\<close> is \<open>http.ReadRequest\<close> over a \<open>bufio.Reader\<close> of the connection,
  \<open>ToLower\<close> is \<open>strings.ToLower\<close>, \<open>NewConfig\<close> is the error of
  \<open>websocket.NewConfig\<close>, \<open>ServeHTTP\<close> is the upgrade handshake of
  \<open>websocket.Server\<close> raced against the handshake timeout (\<open>None\<close> when no websocket
  was obtained), and \<open>SplitHostPort\<close> is \<open>net.SplitHostPort\<close>.
\<close>

record Request =
  Upgrade :: string
  URLPath :: string

record Lib =
  Handshake :: "RewindConn \<Rightarrow> error option \<times> RewindConn \<times> netConn"
  ReadRequest :: "RewindConn \<Rightarrow> (error + Request) \<times> RewindConn"
  ToLower :: "string \<Rightarrow> string"
  NewConfig :: "string \<Rightarrow> string \<Rightarrow> error option"
  ServeHTTP :: "RewindConn \<Rightarrow> Request \<Rightarrow> netConn option"
  SplitHostPort :: "string \<Rightarrow> error + string \<times> string"

text \<open>
  \<open>tunnel.Tunnel\<close> values passed to \<open>AcceptConn\<close> as the overlay: only the dynamic type
  matters.
\<close>

datatype Tunnel = WebsocketTunnel | TrojanTunnel | MuxTunnel | NilTunnel

text \<open>
  A \<open>select\<close> between a receive from a channel and \<open>ctx.Done()\<close>. A channel is the
  queue of the values sent and not yet received. When both cases are ready Go takes
  either; \<open>pick\<close> says whether it is the receive.
\<close>

datatype 'a received = Received 'a | Cancelled | Blocked

definition selectRecv :: "bool \<Rightarrow> 'a list \<Rightarrow> bool \<Rightarrow> 'a received \<times> 'a list" where
  "selectRecv pick chan done =
     (case chan of
        [] \<Rightarrow> (if done then Cancelled else Blocked, chan)
      | c # rest \<Rightarrow> if done \<and> \<not> pick then (Cancelled, chan) else (Received c, rest))"

section \<open>The TLS server (tunnel/tls/server.go)\<close>

text \<open>
  The fields of \<open>Server\<close> that the accept path reads or writes. \<open>fallbackAddress\<close> and
  \<open>httpResp\<close> are \<open>nil\<close> (\<open>None\<close>) unless configured; \<open>nextHTTP\<close> is the \<open>int32\<close> flag;
  \<open>tlsDone\<close> says that the server's context has been cancelled.
\<close>

record tls_Server =
  fallbackAddress :: "Address option"
  httpResp :: "bytes option"
  tlsConnChan :: "RewindConn list"
  wsChan :: "RewindConn list"
  nextHTTP :: "32 word"
  tlsDone :: bool

text \<open>What the goroutine of one accepted connection does with it.\<close>

datatype tlsOutcome =
    Redirected Redirection
  | WroteThenClosed bytes RewindConn
  | ClosedConn RewindConn
  | ClosedTLS
  | ToConnChan RewindConn
  | ToWsChan RewindConn

definition notTLS :: string where
  "notTLS = ''first record does not look like a TLS handshake''"

text \<open>
  The body of \<open>go func(conn net.Conn)\<close> in \<open>acceptLoop\<close>. A send on a channel is the
  enqueueing it performs once the channel has room.
\<close>

definition tls_serve :: "Lib \<Rightarrow> netConn \<Rightarrow> tls_Server \<Rightarrow> tlsOutcome \<times> tls_Server" where
  "tls_serve lib conn s =
     (let handshakeRewindConn = SetBufferSize 2048 (NewRewindConn conn)
      in case Handshake lib handshakeRewindConn of
           (err, hrc, tlsConn) \<Rightarrow>
             (let handshakeRewindConn = StopBuffering hrc
              in case err of
                   Some e \<Rightarrow>
                     if Contains e notTLS then
                       (let handshakeRewindConn = Rewind handshakeRewindConn
                        in case fallbackAddress s of
                             Some a \<Rightarrow>
                               (Redirected \<lparr>InboundConn = Rewound handshakeRewindConn,
                                            RedirectTo = Some a\<rparr>, s)
                           | None \<Rightarrow>
                               (case httpResp s of
                                  Some resp \<Rightarrow> (WroteThenClosed resp handshakeRewindConn, s)
                                | None \<Rightarrow> (ClosedConn handshakeRewindConn, s)))
                     else (ClosedTLS, s)
                 | None \<Rightarrow>
                     (let rewindConn = SetBufferSize 1024 (NewRewindConn tlsConn)
                      in case ReadRequest lib rewindConn of
                           (req, rc) \<Rightarrow>
                             (let rewindConn = StopBuffering (Rewind rc)
                              in case req of
                                   Inl e \<Rightarrow>
                                     (ToConnChan rewindConn,
                                      s\<lparr>tlsConnChan := tlsConnChan s @ [rewindConn]\<rparr>)
                                 | Inr httpReq \<Rightarrow>
                                     if nextHTTP s \<noteq> 1 then
                                       (Redirected \<lparr>InboundConn = Rewound rewindConn,
                                                    RedirectTo = fallbackAddress s\<rparr>, s)
                                     else
                                       (ToWsChan rewindConn,
                                        s\<lparr>wsChan := wsChan s @ [rewindConn]\<rparr>)))))"

text \<open>
  \<open>acceptLoop\<close> over the results of the successive \<open>s.underlay.AcceptConn\<close> calls; the
  goroutines it starts are run in the order of their connections. On an accept error the
  loop ends: silently when the context is cancelled, and otherwise through \<open>log.Fatal\<close>.
  Package \<open>log\<close> is not among the sources; as everywhere in Go, and as \<open>main\<close> and the
  option handlers rely on, \<open>Fatal\<close> logs and then ends the process.
\<close>

datatype loopEnd = LoopReturned | ProcessExited error | AwaitingAccept

fun tls_acceptLoop ::
  "Lib \<Rightarrow> (error + netConn) list \<Rightarrow> tls_Server \<Rightarrow> loopEnd \<times> tlsOutcome list \<times> tls_Server" where
  "tls_acceptLoop lib [] s = (AwaitingAccept, [], s)"
| "tls_acceptLoop lib (Inl err # rest) s =
     (if tlsDone s then (LoopReturned, [], s)
      else (ProcessExited (NewError (''transport accept error'' @ err)), [], s))"
| "tls_acceptLoop lib (Inr conn # rest) s =
     (case tls_serve lib conn s of
        (out, s') \<Rightarrow>
          (case tls_acceptLoop lib rest s' of
             (e, outs, s'') \<Rightarrow> (e, out # outs, s'')))"

definition tls_AcceptConn ::
  "Tunnel \<Rightarrow> bool \<Rightarrow> tls_Server \<Rightarrow> (error + RewindConn) option \<times> tls_Server" where
  "tls_AcceptConn overlay pick s =
     (if overlay = WebsocketTunnel then
        (let s = s\<lparr>nextHTTP := 1\<rparr>
         in case selectRecv pick (wsChan s) (tlsDone s) of
              (Received conn, rest) \<Rightarrow> (Some (Inr conn), s\<lparr>wsChan := rest\<rparr>)
            | (Cancelled, rest) \<Rightarrow> (Some (Inl (NewError ''transport server closed'')), s)
            | (Blocked, rest) \<Rightarrow> (None, s))
      else
        (case selectRecv pick (tlsConnChan s) (tlsDone s) of
           (Received conn, rest) \<Rightarrow> (Some (Inr conn), s\<lparr>tlsConnChan := rest\<rparr>)
         | (Cancelled, rest) \<Rightarrow> (Some (Inl (NewError ''transport server closed'')), s)
         | (Blocked, rest) \<Rightarrow> (None, s)))"

definition tls_AcceptPacket :: "tls_Server \<Rightarrow> Tunnel \<Rightarrow> (error + RewindConn) goResult" where
  "tls_AcceptPacket s t = Panic ''not supported''"

subsection \<open>Loading the key pair\<close>

text \<open>
  \<open>loadKeyPair\<close> reads files and calls \<open>encoding/pem\<close>, \<open>crypto/x509\<close> and
  \<open>crypto/tls\<close>; what those calls return is an input of the model. A Go call that
  fails returns the zero value beside its error: \<open>nil\<close> bytes are the empty list.
\<close>

record pemBlock =
  Bytes :: bytes

record tlsCertificate =
  Certificate :: "bytes list"
  Leaf :: "string option"

record x509Lib =
  ReadFile :: "string \<Rightarrow> error + bytes"
  pemDecode :: "bytes \<Rightarrow> pemBlock option"
  DecryptPEMBlock :: "pemBlock \<Rightarrow> bytes \<Rightarrow> error + bytes"
  X509KeyPair :: "bytes \<Rightarrow> bytes \<Rightarrow> error + tlsCertificate"
  LoadX509KeyPair :: "string \<Rightarrow> string \<Rightarrow> error + tlsCertificate"
  ParseCertificate :: "bytes \<Rightarrow> error + string"

text \<open>
  The last step of both branches: \<open>keyPair.Leaf, err = x509.ParseCertificate(keyPair.Certificate[0])\<close>.
  Indexing an empty chain panics.
\<close>

definition parseLeaf :: "x509Lib \<Rightarrow> tlsCertificate \<Rightarrow> (error + tlsCertificate) goResult" where
  "parseLeaf lib keyPair =
     (case Certificate keyPair of
        [] \<Rightarrow> Panic ''index out of range [0] with length 0''
      | c # rest \<Rightarrow>
          (case ParseCertificate lib c of
             Inl err \<Rightarrow> Returns (Inl (Base (NewError ''failed to parse leaf certificate'') (Some err)))
           | Inr leaf \<Rightarrow> Returns (Inr (keyPair\<lparr>Leaf := Some leaf\<rparr>))))"

definition loadKeyPair ::
  "x509Lib \<Rightarrow> string \<Rightarrow> string \<Rightarrow> string \<Rightarrow> (error + tlsCertificate) goResult" where
  "loadKeyPair lib keyPath certPath password =
     (if password \<noteq> [] then
        (case ReadFile lib keyPath of
           Inl err \<Rightarrow> Returns (Inl (Base (NewError ''failed to load key file'') (Some err)))
         | Inr keyFile \<Rightarrow>
             (case pemDecode lib keyFile of
                None \<Rightarrow> Returns (Inl (Base (NewError ''failed to decode key file'') None))
              | Some keyBlock \<Rightarrow>
                  (case DecryptPEMBlock lib keyBlock password of
                     Inr decryptedKey \<Rightarrow>
                       Returns (Inl (Base (NewError ''failed to decrypt key'') None))
                   | Inl decryptErr \<Rightarrow>
                       (let decryptedKey = [];
                            (certFile, err) =
                               (case ReadFile lib certPath of
                                  Inl e \<Rightarrow> ([], Some e)
                                | Inr f \<Rightarrow> (f, None))
                        in case pemDecode lib certFile of
                             None \<Rightarrow>
                               Returns (Inl (Base (NewError ''failed to decode cert file'') err))
                           | Some certBlock \<Rightarrow>
                               (case X509KeyPair lib (Bytes certBlock) decryptedKey of
                                  Inl e \<Rightarrow> Returns (Inl e)
                                | Inr keyPair \<Rightarrow> parseLeaf lib keyPair)))))
      else
        (case LoadX509KeyPair lib certPath keyPath of
           Inl err \<Rightarrow> Returns (Inl (Base (NewError ''failed to load key pair'') (Some err)))
         | Inr keyPair \<Rightarrow> parseLeaf lib keyPair))"

section \<open>The WebSocket server (package websocket)\<close>

record ws_Server =
  hostname :: string
  path :: string
  enabled :: bool
  wsRedirAddr :: Address

record ws_InboundConn =
  tcpConn :: netConn
  wsConn :: netConn

text \<open>
  What \<open>AcceptConn\<close> does with the connection besides returning: a redirection handed
  to \<open>s.redir\<close>, or the upgrade handshake \<open>wsServer.ServeHTTP\<close> started on a request.
\<close>

datatype wsEffect = Redirect Redirection | Serve Request

text \<open>
  \<open>AcceptConn\<close>, given what \<open>s.underlay.AcceptConn\<close> returned. After \<open>ServeHTTP\<close> was
  started, \<open>wsConn == nil\<close> once the handshake or the timeout has fired is \<open>None\<close>.
\<close>

definition ws_AcceptConn ::
  "Lib \<Rightarrow> ws_Server \<Rightarrow> error + netConn \<Rightarrow> (error + ws_InboundConn) \<times> wsEffect list" where
  "ws_AcceptConn lib s accepted =
     (case accepted of
        Inl err \<Rightarrow>
          (Inl (NewError ''websocket failed to accept connection from underlying server''), [])
      | Inr conn \<Rightarrow>
          if \<not> enabled s then
            (Inl (NewError (''websocket is disabled. redirecting http request from '' @
                            remoteAddr conn)),
             [Redirect \<lparr>InboundConn = Plain conn, RedirectTo = Some (wsRedirAddr s)\<rparr>])
          else
            (let rewindConn = SetBufferSize 512 (NewRewindConn conn)
             in case ReadRequest lib rewindConn of
                  (Inl err, rc) \<Rightarrow>
                    (let rewindConn = StopBuffering (Rewind rc)
                     in (Inl (Base (NewError (''not a valid http request: '' @ remoteAddr conn))
                                   (Some err)),
                         [Redirect \<lparr>InboundConn = Rewound rewindConn,
                                    RedirectTo = Some (wsRedirAddr s)\<rparr>]))
                | (Inr req, rc) \<Rightarrow>
                    if ToLower lib (Upgrade req) \<noteq> ''websocket'' \<or> URLPath req \<noteq> path s then
                      (let rewindConn = StopBuffering (Rewind rc)
                       in (Inl (Base (NewError (''not a valid websocket handshake request: '' @
                                                remoteAddr conn)) None),
                           [Redirect \<lparr>InboundConn = Rewound rewindConn,
                                      RedirectTo = Some (wsRedirAddr s)\<rparr>]))
                    else
                      (case NewConfig lib (''wss://'' @ hostname s @ path s)
                                          (''https://'' @ hostname s) of
                         Some err \<Rightarrow>
                           (Inl (Base (NewError ''failed to create websocket config'') (Some err)),
                            [])
                       | None \<Rightarrow>
                           (case ServeHTTP lib rc req of
                              None \<Rightarrow> (Inl (NewError ''websocket failed to handshake''), [Serve req])
                            | Some ws \<Rightarrow> (Inr \<lparr>tcpConn = conn, wsConn = ws\<rparr>, [Serve req])))))"

definition ws_AcceptPacket :: "ws_Server \<Rightarrow> Tunnel \<Rightarrow> (error + ws_InboundConn) goResult" where
  "ws_AcceptPacket s t = Returns (Inl (NewError ''not supported''))"

section \<open>The Trojan server (package trojan)\<close>

subsection \<open>Users and the authenticator\<close>

text \<open>
  Modelled from the spec: \<open>statistic.User\<close> and \<open>statistic.Authenticator\<close> are
  interfaces whose implementations are not among the sources. The specification gives a
  user a set of client IPs bounded by \<open>ip_limit\<close> (0 means unlimited); \<open>AddIP\<close> returns
  false when the limit is reached, \<open>DelIP\<close> takes the IP out again. The authenticator is
  a set of users keyed by hash, and \<open>AuthUser(hash)\<close> returns \<open>(valid, user)\<close>. The
  user that \<open>AuthUser\<close> returns is the authenticator's own object: here a connection
  refers to its user by the hash, and \<open>AddIP\<close> and \<open>DelIP\<close> update the authenticator.
\<close>

record User =
  ip_set :: "string list"
  ip_limit :: nat

definition AddIP :: "string \<Rightarrow> User \<Rightarrow> bool \<times> User" where
  "AddIP a u =
     (if a \<in> set (ip_set u) then (True, u)
      else if ip_limit u \<noteq> 0 \<and> ip_limit u \<le> length (ip_set u) then (False, u)
      else (True, u\<lparr>ip_set := a # ip_set u\<rparr>))"

definition DelIP :: "string \<Rightarrow> User \<Rightarrow> User" where
  "DelIP a u = u\<lparr>ip_set := removeAll a (ip_set u)\<rparr>"

type_synonym Authenticator = "string \<rightharpoonup> User"

subsection \<open>The request header\<close>

text \<open>
  Modelled from the spec: the command constants of package \<open>trojan\<close> and
  \<open>tunnel.Metadata.ReadFrom\<close> are not among the sources. The specification gives the
  commands as CONNECT = 1, ASSOCIATE = 3, MUX = 0x7f and the request header as
  \<open>CMD:1 | ATYP:1 | DST.ADDR:var | DST.PORT:2\<close>, with ATYP 1 for IPv4 (4 bytes), 3 for
  a domain name (1 byte of length, then the name) and 4 for IPv6 (16 bytes), and the port
  big-endian. The command byte is stored as read: the dispatch treats unknown commands.
\<close>

definition Connect :: "8 word" where "Connect = 1"
definition Associate :: "8 word" where "Associate = 3"
definition Mux :: "8 word" where "Mux = 0x7f"

record Metadata =
  Command :: "8 word"
  Addr :: Address

definition readByte :: "RewindConn \<Rightarrow> (error + char) \<times> RewindConn" where
  "readByte rc =
     (case ReadFull 1 rc of
        ((d, Some e), rc') \<Rightarrow> (Inl e, rc')
      | ((d, None), rc') \<Rightarrow>
          (case d of [] \<Rightarrow> (Inl ErrUnexpectedEOF, rc') | c # rest \<Rightarrow> (Inr c, rc')))"

definition readPort :: "RewindConn \<Rightarrow> (error + nat) \<times> RewindConn" where
  "readPort rc =
     (case ReadFull 2 rc of
        ((d, Some e), rc') \<Rightarrow> (Inl e, rc')
      | ((d, None), rc') \<Rightarrow>
          (case d of
             hi # lo # rest \<Rightarrow> (Inr (of_char hi * 256 + of_char lo), rc')
           | _ \<Rightarrow> (Inl ErrUnexpectedEOF, rc')))"

definition readHost :: "8 word \<Rightarrow> RewindConn \<Rightarrow> (error + Address) \<times> RewindConn" where
  "readHost atyp rc =
     (if atyp = 1 then
        (case ReadFull 4 rc of
           ((d, Some e), rc') \<Rightarrow> (Inl e, rc')
         | ((d, None), rc') \<Rightarrow>
             (Inr \<lparr>AddressType = atyp, DomainName = [], IP = d, Port = 0\<rparr>, rc'))
      else if atyp = 4 then
        (case ReadFull 16 rc of
           ((d, Some e), rc') \<Rightarrow> (Inl e, rc')
         | ((d, None), rc') \<Rightarrow>
             (Inr \<lparr>AddressType = atyp, DomainName = [], IP = d, Port = 0\<rparr>, rc'))
      else if atyp = 3 then
        (case readByte rc of
           (Inl e, rc') \<Rightarrow> (Inl e, rc')
         | (Inr len, rc') \<Rightarrow>
             (case ReadFull (of_char len) rc' of
                ((d, Some e), rc'') \<Rightarrow> (Inl e, rc'')
              | ((d, None), rc'') \<Rightarrow>
                  (Inr \<lparr>AddressType = atyp, DomainName = d, IP = [], Port = 0\<rparr>, rc'')))
      else (Inl (NewError ''invalid ATYP''), rc))"

definition ReadFrom :: "RewindConn \<Rightarrow> (error + Metadata) \<times> RewindConn" where
  "ReadFrom rc =
     (case readByte rc of
        (Inl e, rc1) \<Rightarrow> (Inl e, rc1)
      | (Inr cmd, rc1) \<Rightarrow>
          (case readByte rc1 of
             (Inl e, rc2) \<Rightarrow> (Inl e, rc2)
           | (Inr atyp, rc2) \<Rightarrow>
               (case readHost (of_char atyp) rc2 of
                  (Inl e, rc3) \<Rightarrow> (Inl e, rc3)
                | (Inr a, rc3) \<Rightarrow>
                    (case readPort rc3 of
                       (Inl e, rc4) \<Rightarrow> (Inl e, rc4)
                     | (Inr p, rc4) \<Rightarrow>
                         (Inr \<lparr>Command = of_char cmd, Addr = a\<lparr>Port := p\<rparr>\<rparr>, rc4)))))"

subsection \<open>The inbound connection\<close>

text \<open>
  \<open>InboundConn\<close>: the embedded \<open>net.Conn\<close> is the rewind connection \<open>acceptLoop\<close> wraps
  the accepted connection in; \<open>user\<close> is \<open>nil\<close> (\<open>None\<close>) until \<open>Auth\<close> has stored the
  authenticated user, and \<open>metadata\<close> is \<open>nil\<close> until \<open>Auth\<close> has allocated it. The
  authenticator \<open>c.auth\<close> is shared with the server and passed beside the connection.
\<close>

record InboundConn =
  sent :: "64 word"
  recv :: "64 word"
  Conn :: RewindConn
  user :: "string option"
  hash :: string
  metadata :: "Metadata option"
  ip :: string

definition emptyMetadata :: Metadata where
  "emptyMetadata =
     \<lparr>Command = 0, Addr = \<lparr>AddressType = 0, DomainName = [], IP = [], Port = 0\<rparr>\<rparr>"

definition Auth ::
  "Lib \<Rightarrow> InboundConn \<Rightarrow> Authenticator \<Rightarrow> error option \<times> InboundConn \<times> Authenticator" where
  "Auth lib c auth =
     (case Read 56 (Conn c) of
        ((userHash, err), rc1) \<Rightarrow>
          (let c = c\<lparr>Conn := rc1\<rparr>
           in if err \<noteq> None \<or> length userHash \<noteq> 56 then
                (Some (Base (NewError ''failed to read hash'') err), c, auth)
              else
                (case auth userHash of
                   None \<Rightarrow> (Some (NewError (''invalid hash:'' @ userHash)), c, auth)
                 | Some u \<Rightarrow>
                     (let c = c\<lparr>hash := userHash, user := Some userHash\<rparr>
                      in case SplitHostPort lib (RemoteAddr (Conn c)) of
                           Inl e \<Rightarrow>
                             (Some (Base (NewError (''failed to parse host:'' @
                                                    RemoteAddr (Conn c))) (Some e)), c, auth)
                         | Inr (host, port) \<Rightarrow>
                             (let c = c\<lparr>ip := host\<rparr>
                              in case AddIP host u of
                                   (ok, u') \<Rightarrow>
                                     (let auth = auth(userHash \<mapsto> u')
                                      in if \<not> ok then
                                           (Some (NewError ''ip limit reached''), c, auth)
                                         else
                                           (case ReadFull 2 (Conn c) of
                                              ((crlf, Some e), rc2) \<Rightarrow>
                                                (Some e, c\<lparr>Conn := rc2\<rparr>, auth)
                                            | ((crlf, None), rc2) \<Rightarrow>
                                                (let c = c\<lparr>Conn := rc2,
                                                           metadata := Some emptyMetadata\<rparr>
                                                 in case ReadFrom (Conn c) of
                                                      (Inl e, rc3) \<Rightarrow>
                                                        (Some e, c\<lparr>Conn := rc3\<rparr>, auth)
                                                    | (Inr m, rc3) \<Rightarrow>
                                                        (let c = c\<lparr>Conn := rc3,
                                                                   metadata := Some m\<rparr>
                                                         in case ReadFull 2 (Conn c) of
                                                              ((crlf, Some e), rc4) \<Rightarrow>
                                                                (Some e, c\<lparr>Conn := rc4\<rparr>, auth)
                                                            | ((crlf, None), rc4) \<Rightarrow>
                                                                (None, c\<lparr>Conn := rc4\<rparr>,
                                                                 auth))))))))))"

text \<open>
  \<open>InboundConn.Close\<close>: the only caller of \<open>DelIP\<close>. It dereferences \<open>c.metadata\<close>
  and calls a method of \<open>c.user\<close>, which panics on \<open>nil\<close>. The result is the authenticator
  after the call, the underlying connection being closed.
\<close>

definition Close :: "InboundConn \<Rightarrow> Authenticator \<Rightarrow> Authenticator goResult" where
  "Close c auth =
     (case metadata c of
        None \<Rightarrow> Panic ''invalid memory address or nil pointer dereference''
      | Some m \<Rightarrow>
          (case user c of
             None \<Rightarrow> Panic ''invalid memory address or nil pointer dereference''
           | Some h \<Rightarrow>
               (case auth h of
                  None \<Rightarrow> Returns auth
                | Some u \<Rightarrow> Returns (auth(h \<mapsto> DelIP (ip c) u)))))"

subsection \<open>The server\<close>

text \<open>
  The fields of \<open>Server\<close> that the accept path reads or writes. \<open>redir\<close> holds the
  redirections handed to the redirector, in order; \<open>logged\<close> the calls of package
  \<open>log\<close> with their level; \<open>trojanDone\<close> says that the context has been cancelled.
  \<open>PacketConn\<close> is the struct of that name, whose only field is the inbound connection.
\<close>

datatype level = Debug | Info | Warn | Error

datatype PacketConn = PacketConn InboundConn

record trojan_Server =
  auth :: Authenticator
  redir :: "Redirection list"
  redirAddr :: Address
  connChan :: "InboundConn list"
  muxChan :: "InboundConn list"
  packetChan :: "PacketConn list"
  logged :: "(level \<times> string) list"
  trojanDone :: bool

text \<open>The verb \<open>%d\<close> of \<open>fmt.Sprintf\<close> on a byte.\<close>

definition digit :: "nat \<Rightarrow> char" where
  "digit d = char_of (48 + d)"

definition decimal :: "nat \<Rightarrow> string" where
  "decimal n =
     (if n < 10 then [digit n]
      else if n < 100 then [digit (n div 10), digit (n mod 10)]
      else [digit (n div 100), digit (n div 10 mod 10), digit (n mod 10)])"

text \<open>
  The \<open>switch inboundConn.metadata.Command\<close> of \<open>acceptLoop\<close>. A send on a channel is
  the enqueueing it performs once the channel has room.
\<close>

definition dispatch :: "Metadata \<Rightarrow> InboundConn \<Rightarrow> trojan_Server \<Rightarrow> trojan_Server" where
  "dispatch m inboundConn s =
     (if Command m = Connect then
        (if DomainName (Addr m) = ''MUX_CONN'' then
           s\<lparr>muxChan := muxChan s @ [inboundConn],
             logged := logged s @ [(Debug, ''mux(r) connection'')]\<rparr>
         else
           s\<lparr>connChan := connChan s @ [inboundConn],
             logged := logged s @ [(Debug, ''normal trojan connection'')]\<rparr>)
      else if Command m = Associate then
        s\<lparr>packetChan := packetChan s @ [PacketConn inboundConn],
          logged := logged s @ [(Debug, ''trojan udp connection'')]\<rparr>
      else if Command m = Mux then
        s\<lparr>muxChan := muxChan s @ [inboundConn],
          logged := logged s @ [(Debug, ''mux connection'')]\<rparr>
      else
        s\<lparr>logged := logged s @
            [(Error, NewError (''unknown trojan command '' @ decimal (unat (Command m))))]\<rparr>)"

text \<open>
  The body of \<open>go func(conn tunnel.Conn)\<close> in \<open>acceptLoop\<close>. \<open>inboundConn.Conn\<close> and
  \<open>rewindConn\<close> are one object: after \<open>Auth\<close> its state is the \<open>Conn\<close> of the connection
  \<open>Auth\<close> returns. \<open>Auth\<close> returns no error only after it has stored the metadata.
\<close>

definition newInboundConn :: "netConn \<Rightarrow> InboundConn" where
  "newInboundConn conn =
     \<lparr>sent = 0, recv = 0, Conn = SetBufferSize 128 (NewRewindConn conn), user = None,
      hash = [], metadata = None, ip = []\<rparr>"

definition trojan_serve :: "Lib \<Rightarrow> netConn \<Rightarrow> trojan_Server \<Rightarrow> trojan_Server" where
  "trojan_serve lib conn s =
     (case Auth lib (newInboundConn conn) (auth s) of
        (Some err, inboundConn, auth') \<Rightarrow>
          (let rewindConn = StopBuffering (Rewind (Conn inboundConn))
           in s\<lparr>auth := auth',
                logged := logged s @
                  [(Warn, Base (NewError (''connection with invalid trojan header from '' @
                                          RemoteAddr rewindConn)) (Some err))],
                redir := redir s @
                  [\<lparr>InboundConn = Rewound rewindConn, RedirectTo = Some (redirAddr s)\<rparr>]\<rparr>)
      | (None, inboundConn, auth') \<Rightarrow>
          (let inboundConn = inboundConn\<lparr>Conn := StopBuffering (Conn inboundConn)\<rparr>
           in case metadata inboundConn of
                None \<Rightarrow> s\<lparr>auth := auth'\<rparr>
              | Some m \<Rightarrow> dispatch m inboundConn (s\<lparr>auth := auth'\<rparr>)))"

text \<open>
  \<open>acceptLoop\<close> over the results of the successive \<open>s.underlay.AcceptConn\<close> calls: an
  accept error is logged, and ends the loop only when the context is cancelled.
\<close>

fun trojan_acceptLoop ::
  "Lib \<Rightarrow> (error + netConn) list \<Rightarrow> trojan_Server \<Rightarrow> loopEnd \<times> trojan_Server" where
  "trojan_acceptLoop lib [] s = (AwaitingAccept, s)"
| "trojan_acceptLoop lib (Inl err # rest) s =
     (let s = s\<lparr>logged := logged s @
                 [(Error, Base (NewError ''trojan failed to accept conn'') (Some err))]\<rparr>
      in if trojanDone s then (LoopReturned, s) else trojan_acceptLoop lib rest s)"
| "trojan_acceptLoop lib (Inr conn # rest) s =
     trojan_acceptLoop lib rest (trojan_serve lib conn s)"

section \<open>Example inputs\<close>

text \<open>
  An instance of the library calls and a few connections, on which the theorems below
  are run. The handshake of this instance reads the five bytes of a record header and
  takes the connection for TLS when the first byte is the handshake record type 22; the
  decrypted stream is then what follows. Its request parser takes the bytes of one read
  for an HTTP request when they start with \<open>GET\<close> and a space; the path is what follows
  up to the next space, and the request asks for an upgrade when it contains the header
  line \<open>Upgrade: WebSocket\<close>. Its \<open>ToLower\<close> lowers the ASCII letters.
\<close>

definition lowerChar :: "char \<Rightarrow> char" where
  "lowerChar c =
     (case map_of (zip ''ABCDEFGHIJKLMNOPQRSTUVWXYZ'' ''abcdefghijklmnopqrstuvwxyz'') c of
        Some l \<Rightarrow> l
      | None \<Rightarrow> c)"

definition exampleHandshake :: "RewindConn \<Rightarrow> error option \<times> RewindConn \<times> netConn" where
  "exampleHandshake rc =
     (case ReadFull 5 rc of
        ((d, Some e), rc') \<Rightarrow> (Some e, rc', rawConn rc')
      | ((d, None), rc') \<Rightarrow>
          if take 1 d = [CHR 0x16] then (None, rc', rawConn rc')
          else if take 1 d = [CHR 0x15] then
            (Some ''remote error: tls: bad certificate'', rc', rawConn rc')
          else (Some ''tls: first record does not look like a TLS handshake'', rc', rawConn rc'))"

definition exampleReadRequest :: "RewindConn \<Rightarrow> (error + Request) \<times> RewindConn" where
  "exampleReadRequest rc =
     (case Read 4096 rc of
        ((d, err), rc') \<Rightarrow>
          if HasPrefix d ''GET '' then
            (Inr \<lparr>Upgrade = (if Contains d ''Upgrade: WebSocket'' then ''WebSocket'' else []),
                  URLPath = takeWhile (\<lambda>c. c \<noteq> CHR '' '') (drop 4 d)\<rparr>, rc')
          else (Inl ''malformed HTTP request'', rc'))"

definition exampleSplitHostPort :: "string \<Rightarrow> error + string \<times> string" where
  "exampleSplitHostPort a =
     (let host = takeWhile (\<lambda>c. c \<noteq> CHR '':'') a
      in if length host < length a then Inr (host, drop (Suc (length host)) a)
         else Inl ''missing port in address'')"

definition exampleLib :: Lib where
  "exampleLib =
     \<lparr>Handshake = exampleHandshake,
      ReadRequest = exampleReadRequest,
      ToLower = map lowerChar,
      NewConfig = (\<lambda>url origin. None),
      ServeHTTP = (\<lambda>rc req. Some (rawConn rc)),
      SplitHostPort = exampleSplitHostPort\<rparr>"

definition fallback :: Address where
  "fallback = \<lparr>AddressType = 3, DomainName = ''decoy.example.com'', IP = [], Port = 80\<rparr>"

definition exampleTLS :: tls_Server where
  "exampleTLS =
     \<lparr>fallbackAddress = None, httpResp = None, tlsConnChan = [], wsChan = [],
      nextHTTP = 0, tlsDone = False\<rparr>"

definition probe :: netConn where
  "probe = \<lparr>segments = [''GET / HTTP/1.0'' @ [CHR 0x0D, CHR 0x0A, CHR 0x0D, CHR 0x0A]],
            remoteAddr = ''198.51.100.7:40000''\<rparr>"

definition wsUpgrade :: netConn where
  "wsUpgrade =
     \<lparr>segments =
        [[CHR 0x16, CHR 0x03, CHR 0x01, CHR 0x00, CHR 0x2A],
         ''GET /ws HTTP/1.1'' @ [CHR 0x0D, CHR 0x0A] @ ''Upgrade: WebSocket'' @
           [CHR 0x0D, CHR 0x0A, CHR 0x0D, CHR 0x0A]],
      remoteAddr = ''198.51.100.7:40001''\<rparr>"

definition tlsOpaque :: netConn where
  "tlsOpaque =
     \<lparr>segments = [[CHR 0x16, CHR 0x03, CHR 0x01, CHR 0x00, CHR 0x2A], ''0123456789abcdef''],
      remoteAddr = ''198.51.100.7:40002''\<rparr>"

text \<open>
  Files and library results for \<open>loadKeyPair\<close>: a key file encrypted under the password
  \<open>hunter2\<close> and a certificate file.
\<close>

definition exampleX509 :: x509Lib where
  "exampleX509 =
     \<lparr>ReadFile = (\<lambda>p. if p = ''server.key'' then Inr ''ENCRYPTED KEY''
                      else if p = ''server.crt'' then Inr ''CERTIFICATE''
                      else Inl (''open '' @ p @ '': no such file or directory'')),
      pemDecode = (\<lambda>b. if b = [] then None else Some \<lparr>Bytes = b\<rparr>),
      DecryptPEMBlock = (\<lambda>blk pw. if pw = ''hunter2'' then Inr ''KEY''
                                  else Inl ''x509: decryption password incorrect''),
      X509KeyPair = (\<lambda>c k. if k = ''KEY'' then Inr \<lparr>Certificate = [c], Leaf = None\<rparr>
                            else Inl ''tls: failed to find any PEM data in key input''),
      LoadX509KeyPair = (\<lambda>c k. Inl ''tls: failed to parse private key''),
      ParseCertificate = (\<lambda>c. Inr ''CN=example.com'')\<rparr>"

definition exampleWS :: ws_Server where
  "exampleWS =
     \<lparr>hostname = ''example.com'', path = ''/ws'', enabled = True, wsRedirAddr = fallback\<rparr>"

definition wsGood :: netConn where
  "wsGood =
     \<lparr>segments =
        [''GET /ws HTTP/1.1'' @ [CHR 0x0D, CHR 0x0A] @ ''Upgrade: WebSocket'' @
           [CHR 0x0D, CHR 0x0A, CHR 0x0D, CHR 0x0A]],
      remoteAddr = ''198.51.100.7:40003''\<rparr>"

definition wsWrongPath :: netConn where
  "wsWrongPath =
     \<lparr>segments =
        [''GET /wrongpath HTTP/1.1'' @ [CHR 0x0D, CHR 0x0A] @ ''Upgrade: WebSocket'' @
           [CHR 0x0D, CHR 0x0A, CHR 0x0D, CHR 0x0A]],
      remoteAddr = ''198.51.100.7:40004''\<rparr>"

text \<open>
  A Trojan server with one user, whose password is \<open>hunter2\<close>, and four clients: one
  that sends a well-formed CONNECT request for \<open>example.com:443\<close>, one that sends the
  same request with other bytes where the two CRLF belong, one that sends 56 bytes that
  are no user's hash, and one that stops after the hash and one more byte.
\<close>

definition hunter2 :: string where
  "hunter2 = ''84ca85078d6fa3a9b01dae0242938a9b71c9c6920f8d790505cad7a7''"

definition exampleTrojan :: trojan_Server where
  "exampleTrojan =
     \<lparr>auth = [hunter2 \<mapsto> \<lparr>ip_set = [], ip_limit = 1\<rparr>], redir = [], redirAddr = fallback,
      connChan = [], muxChan = [], packetChan = [], logged = [], trojanDone = False\<rparr>"

definition connectHeader :: bytes where
  "connectHeader = [CHR 0x01, CHR 0x03, CHR 0x0B] @ ''example.com'' @ [CHR 0x01, CHR 0xBB]"

definition happy :: netConn where
  "happy =
     \<lparr>segments = [hunter2 @ [CHR 0x0D, CHR 0x0A] @ connectHeader @ [CHR 0x0D, CHR 0x0A] @
                   ''GET / HTTP/1.1''],
      remoteAddr = ''203.0.113.9:50000''\<rparr>"

definition noCRLF :: netConn where
  "noCRLF =
     \<lparr>segments = [hunter2 @ ''XY'' @ connectHeader @ ''ZW'' @ ''GET / HTTP/1.1''],
      remoteAddr = ''203.0.113.9:50001''\<rparr>"

definition badHash :: netConn where
  "badHash =
     \<lparr>segments = [''xxxxxxxxxxxxxxxxxxxxxxxxxxxxxxxxxxxxxxxxxxxxxxxxxxxxxxxx'' @ ''random'', ''bytes''],
      remoteAddr = ''203.0.113.9:50002''\<rparr>"

definition truncated :: netConn where
  "truncated =
     \<lparr>segments = [hunter2 @ [CHR 0x0D]], remoteAddr = ''203.0.113.9:50003''\<rparr>"

section \<open>What a connection still holds\<close>

text \<open>
  \<open>replay\<close> is what a rewind connection would yield if read from byte 0: its buffer,
  then what has not been read from the underlying connection. A connection is
  \<open>recording\<close> while it buffers and everything read so far is in the buffer. \<open>kept\<close>
  relates a recording connection to a later state in which it still records the same
  bytes of the same peer.
\<close>

definition replay :: "RewindConn \<Rightarrow> bytes" where
  "replay rc = buf rc @ concat (segments (rawConn rc))"

definition recording :: "RewindConn \<Rightarrow> bool" where
  "recording rc = (buffering rc \<and> index rc = length (buf rc))"

definition kept :: "RewindConn \<Rightarrow> RewindConn \<Rightarrow> bool" where
  "kept rc rc' =
     (recording rc' \<and> replay rc' = replay rc \<and> bufferSize rc' = bufferSize rc \<and>
      remoteAddr (rawConn rc') = remoteAddr (rawConn rc))"

section \<open>Evaluation\<close>

text \<open>The equations by which the examples are evaluated.\<close>

lemmas read_eval = ReadFull_def ReadAtLeast.simps Read_def netRead_def SetBufferSize_def
  NewRewindConn_def StopBuffering_def Rewind_def RemoteAddr_def EOF_def ErrUnexpectedEOF_def
  BufferOverflow_def Let_def

lemmas example_eval = exampleLib_def exampleHandshake_def exampleReadRequest_def
  exampleSplitHostPort_def lowerChar_def HasPrefix_def HasSuffix_def NewError_def Base_def

section \<open>Properties of the SNI matching\<close>

lemma Contains_single: "Contains s [c] \<longleftrightarrow> c \<in> set s"
  by (induction s) (auto simp: HasPrefix_def)

lemma HasPrefix_star: "HasPrefix (CHR ''*'' # CHR ''.'' # suffix) ''*.''"
  by (simp add: HasPrefix_def)

lemma isDomainNameMatched_wildcard:
  "isDomainNameMatched (CHR ''*'' # CHR ''.'' # suffix) d \<longleftrightarrow>
     HasSuffix d suffix \<and> length suffix + 2 \<le> length d \<and>
     CHR ''.'' \<notin> set (take (length d - length suffix - 1) d)"
proof (cases "length suffix + 2 \<le> length d")
  case True
  then have n: "nat (int (length d) - int (length suffix) - 1) = length d - length suffix - 1"
    and p: "int (length d) - int (length suffix) - 1 > 0"
    by linarith+
  show ?thesis
    unfolding isDomainNameMatched_def Let_def
    using True p by (simp add: HasPrefix_star n Contains_single)
next
  case False
  then have "\<not> int (length d) - int (length suffix) - 1 > 0"
    by linarith
  with False show ?thesis
    unfolding isDomainNameMatched_def Let_def
    by (simp add: HasPrefix_star)
qed

lemma HasSuffix_append: "HasSuffix (p @ suffix) suffix"
  by (simp add: HasSuffix_def)

text \<open>
  Claim C5, as amended. For a wildcard pattern \<open>"*." + suffix\<close>, \<open>isDomainNameMatched\<close>
  returns true when the domain name is a non-empty label without a dot, then a dot, then
  the suffix; it returns true only when the domain name ends with the suffix and the part
  before the suffix has at least two characters, none of which but the last is a dot. For
  a pattern that does not start with \<open>"*."\<close> it returns true iff the pattern equals the
  domain name. The four examples of the specification hold.
\<close>

theorem isDomainNameMatched_rule:
  "(label \<noteq> [] \<and> CHR ''.'' \<notin> set label \<longrightarrow>
      isDomainNameMatched (''*.'' @ suffix) (label @ ''.'' @ suffix)) \<and>
   (isDomainNameMatched (''*.'' @ suffix) d \<longrightarrow>
      HasSuffix d suffix \<and> length suffix + 2 \<le> length d \<and>
      CHR ''.'' \<notin> set (take (length d - length suffix - 1) d)) \<and>
   (\<not> HasPrefix pattern ''*.'' \<longrightarrow> isDomainNameMatched pattern d = (pattern = d)) \<and>
   isDomainNameMatched ''*.example.com'' ''a.example.com'' \<and>
   \<not> isDomainNameMatched ''*.example.com'' ''example.com'' \<and>
   \<not> isDomainNameMatched ''*.example.com'' ''b.a.example.com'' \<and>
   isDomainNameMatched ''example.com'' ''example.com''"
proof -
  have a: "label \<noteq> [] \<and> CHR ''.'' \<notin> set label \<longrightarrow>
      isDomainNameMatched (''*.'' @ suffix) (label @ ''.'' @ suffix)"
    using HasSuffix_append [of "label @ ''.''" suffix]
    by (cases label) (simp_all add: isDomainNameMatched_wildcard)
  have b: "isDomainNameMatched (''*.'' @ suffix) d \<longrightarrow>
      HasSuffix d suffix \<and> length suffix + 2 \<le> length d \<and>
      CHR ''.'' \<notin> set (take (length d - length suffix - 1) d)"
    by (simp add: isDomainNameMatched_wildcard)
  have c: "\<not> HasPrefix pattern ''*.'' \<longrightarrow> isDomainNameMatched pattern d = (pattern = d)"
    by (simp add: isDomainNameMatched_def)
  have e: "isDomainNameMatched ''*.example.com'' ''a.example.com'' \<and>
   \<not> isDomainNameMatched ''*.example.com'' ''example.com'' \<and>
   \<not> isDomainNameMatched ''*.example.com'' ''b.a.example.com'' \<and>
   isDomainNameMatched ''example.com'' ''example.com''"
    by (simp add: isDomainNameMatched_def HasPrefix_def HasSuffix_def)
  from a b c e show ?thesis by blast
qed

text \<open>The rule at \<open>www.example.com\<close>, with its hypotheses discharged.\<close>

theorem isDomainNameMatched_rule_witness:
  "isDomainNameMatched ''*.example.com'' ''www.example.com'' \<and>
   HasSuffix ''www.example.com'' ''example.com'' \<and>
   isDomainNameMatched ''example.org'' ''www.example.com'' = (''example.org'' = ''www.example.com'')"
proof -
  have h1: "''www'' \<noteq> [] \<and> CHR ''.'' \<notin> set ''www''" by simp
  have h3: "\<not> HasPrefix ''example.org'' ''*.''" by (simp add: HasPrefix_def)
  from isDomainNameMatched_rule [of "''www''" "''example.com''" "''www.example.com''" "''example.org''"] h1 h3
  show ?thesis by simp
qed

text \<open>
  The rule as the specification words it (\<open>spec_isMatch\<close>) differs from the code: the part
  of \<open>a.example.com\<close> before the suffix \<open>example.com\<close> is \<open>a.\<close>, which contains a dot,
  and the part of \<open>xexample.com\<close> before the suffix is \<open>x\<close>, which is one character
  without a dot.
\<close>

theorem spec_isMatch_counterexample:
  "isDomainNameMatched ''*.example.com'' ''a.example.com'' \<and>
   \<not> spec_isMatch ''*.example.com'' ''a.example.com'' \<and>
   \<not> isDomainNameMatched ''*.example.com'' ''xexample.com'' \<and>
   spec_isMatch ''*.example.com'' ''xexample.com''"
  by (simp add: isDomainNameMatched_def spec_isMatch_def HasPrefix_def HasSuffix_def)

section \<open>Properties of the TLS server\<close>

lemma Rewind_StopBuffering:
  "index (Rewind (StopBuffering rc)) = 0 \<and> \<not> buffering (Rewind (StopBuffering rc)) \<and>
   buf (Rewind (StopBuffering rc)) = buf rc \<and> rawConn (Rewind (StopBuffering rc)) = rawConn rc"
  by (simp add: Rewind_def StopBuffering_def)

lemma StopBuffering_Rewind:
  "index (StopBuffering (Rewind rc)) = 0 \<and> \<not> buffering (StopBuffering (Rewind rc)) \<and>
   buf (StopBuffering (Rewind rc)) = buf rc \<and> rawConn (StopBuffering (Rewind rc)) = rawConn rc"
  by (simp add: Rewind_def StopBuffering_def)

text \<open>
  Claim C3, as amended. When the TLS handshake fails with an error whose message contains
  "first record does not look like a TLS handshake", the inbound stream is rewound and
  then redirected to the fallback address when one is configured, else written the static
  HTTP response and closed when a response is configured, else closed with nothing
  written. On every other handshake error the TLS connection is closed, with no fallback
  and nothing written. In both cases nothing is delivered to the upper layers.
\<close>

theorem tls_handshake_failure:
  assumes "Handshake lib (SetBufferSize 2048 (NewRewindConn conn)) = (Some e, hrc, tlsConn)"
  shows "tls_serve lib conn s =
           (if Contains e notTLS then
              (case fallbackAddress s of
                 Some a \<Rightarrow>
                   Redirected \<lparr>InboundConn = Rewound (Rewind (StopBuffering hrc)),
                               RedirectTo = Some a\<rparr>
               | None \<Rightarrow>
                   (case httpResp s of
                      Some resp \<Rightarrow> WroteThenClosed resp (Rewind (StopBuffering hrc))
                    | None \<Rightarrow> ClosedConn (Rewind (StopBuffering hrc))))
            else ClosedTLS, s) \<and>
         index (Rewind (StopBuffering hrc)) = 0 \<and>
         buf (Rewind (StopBuffering hrc)) = buf hrc"
  using assms
  by (simp add: tls_serve_def Let_def Rewind_StopBuffering split: option.splits)

theorem tls_handshake_failure_witness:
  "fst (tls_serve exampleLib probe (exampleTLS\<lparr>fallbackAddress := Some fallback\<rparr>)) =
     Redirected \<lparr>InboundConn = Rewound
                   \<lparr>rawConn = \<lparr>segments = ['' HTTP/1.0'' @ [CHR 0x0D, CHR 0x0A, CHR 0x0D, CHR 0x0A]],
                                remoteAddr = ''198.51.100.7:40000''\<rparr>,
                    buf = ''GET /'', index = 0, buffering = False, bufferSize = 2048\<rparr>,
                 RedirectTo = Some fallback\<rparr>"
proof -
  have h: "Handshake exampleLib (SetBufferSize 2048 (NewRewindConn probe)) =
             (Some ''tls: first record does not look like a TLS handshake'',
              \<lparr>rawConn = \<lparr>segments = ['' HTTP/1.0'' @ [CHR 0x0D, CHR 0x0A, CHR 0x0D, CHR 0x0A]],
                           remoteAddr = ''198.51.100.7:40000''\<rparr>,
               buf = ''GET /'', index = 5, buffering = True, bufferSize = 2048\<rparr>,
              \<lparr>segments = ['' HTTP/1.0'' @ [CHR 0x0D, CHR 0x0A, CHR 0x0D, CHR 0x0A]],
               remoteAddr = ''198.51.100.7:40000''\<rparr>)"
    by (simp add: read_eval example_eval probe_def)
  have c: "Contains ''tls: first record does not look like a TLS handshake'' notTLS"
    by (simp add: notTLS_def HasPrefix_def)
  show ?thesis
    using tls_handshake_failure [OF h, of "exampleTLS\<lparr>fallbackAddress := Some fallback\<rparr>"] c
    by (simp add: exampleTLS_def Rewind_def StopBuffering_def)
qed

text \<open>
  The claim as stated fails where neither a fallback address nor a static response is
  configured: the probe's stream is rewound and the connection closed; it is not
  redirected and no response is written.
\<close>

theorem tls_handshake_failure_counterexample:
  "fallbackAddress exampleTLS = None \<and> httpResp exampleTLS = None \<and>
   fst (tls_serve exampleLib probe exampleTLS) =
     ClosedConn
       \<lparr>rawConn = \<lparr>segments = ['' HTTP/1.0'' @ [CHR 0x0D, CHR 0x0A, CHR 0x0D, CHR 0x0A]],
                    remoteAddr = ''198.51.100.7:40000''\<rparr>,
        buf = ''GET /'', index = 0, buffering = False, bufferSize = 2048\<rparr>"
  by (simp add: tls_serve_def read_eval example_eval probe_def exampleTLS_def notTLS_def)


text \<open>
  Claim C4. After a successful handshake the decrypted stream is parsed as an HTTP
  request and rewound. If the parse fails the rewound stream goes to the Trojan channel;
  if it succeeds and \<open>nextHTTP\<close> is 1 it goes to the WebSocket channel; if it succeeds
  and \<open>nextHTTP\<close> is not 1 it is redirected to the fallback address. \<open>AcceptConn\<close> with a
  WebSocket tunnel as overlay sets \<open>nextHTTP\<close> to 1, and with any other overlay leaves
  it as it is.
\<close>

theorem tls_demux:
  assumes "Handshake lib (SetBufferSize 2048 (NewRewindConn conn)) = (None, hrc, tlsConn)"
    and "ReadRequest lib (SetBufferSize 1024 (NewRewindConn tlsConn)) = (req, rc)"
  shows "tls_serve lib conn s =
           (case req of
              Inl e \<Rightarrow>
                (ToConnChan (StopBuffering (Rewind rc)),
                 s\<lparr>tlsConnChan := tlsConnChan s @ [StopBuffering (Rewind rc)]\<rparr>)
            | Inr httpReq \<Rightarrow>
                if nextHTTP s = 1 then
                  (ToWsChan (StopBuffering (Rewind rc)),
                   s\<lparr>wsChan := wsChan s @ [StopBuffering (Rewind rc)]\<rparr>)
                else
                  (Redirected \<lparr>InboundConn = Rewound (StopBuffering (Rewind rc)),
                               RedirectTo = fallbackAddress s\<rparr>, s)) \<and>
         index (StopBuffering (Rewind rc)) = 0 \<and>
         buf (StopBuffering (Rewind rc)) = buf rc \<and>
         nextHTTP (snd (tls_AcceptConn WebsocketTunnel pick s)) = 1 \<and>
         (overlay \<noteq> WebsocketTunnel \<longrightarrow>
            nextHTTP (snd (tls_AcceptConn overlay pick s)) = nextHTTP s)"
proof -
  have route: "tls_serve lib conn s =
           (case req of
              Inl e \<Rightarrow>
                (ToConnChan (StopBuffering (Rewind rc)),
                 s\<lparr>tlsConnChan := tlsConnChan s @ [StopBuffering (Rewind rc)]\<rparr>)
            | Inr httpReq \<Rightarrow>
                if nextHTTP s = 1 then
                  (ToWsChan (StopBuffering (Rewind rc)),
                   s\<lparr>wsChan := wsChan s @ [StopBuffering (Rewind rc)]\<rparr>)
                else
                  (Redirected \<lparr>InboundConn = Rewound (StopBuffering (Rewind rc)),
                               RedirectTo = fallbackAddress s\<rparr>, s))"
    using assms by (simp add: tls_serve_def Let_def split: sum.splits)
  have ws: "nextHTTP (snd (tls_AcceptConn WebsocketTunnel pick s)) = 1"
    by (simp add: tls_AcceptConn_def Let_def split: prod.splits received.splits)
  have other: "overlay \<noteq> WebsocketTunnel \<longrightarrow>
            nextHTTP (snd (tls_AcceptConn overlay pick s)) = nextHTTP s"
    by (simp add: tls_AcceptConn_def Let_def split: prod.splits received.splits)
  from route ws other show ?thesis
    by (simp add: StopBuffering_Rewind)
qed

theorem tls_demux_witness:
  "fst (tls_serve exampleLib wsUpgrade (snd (tls_AcceptConn WebsocketTunnel True exampleTLS))) =
     ToWsChan
       \<lparr>rawConn = \<lparr>segments = [], remoteAddr = ''198.51.100.7:40001''\<rparr>,
        buf = ''GET /ws HTTP/1.1'' @ [CHR 0x0D, CHR 0x0A] @ ''Upgrade: WebSocket'' @
                [CHR 0x0D, CHR 0x0A, CHR 0x0D, CHR 0x0A],
        index = 0, buffering = False, bufferSize = 1024\<rparr> \<and>
   fst (tls_serve exampleLib wsUpgrade exampleTLS) =
     Redirected
       \<lparr>InboundConn = Rewound
          \<lparr>rawConn = \<lparr>segments = [], remoteAddr = ''198.51.100.7:40001''\<rparr>,
           buf = ''GET /ws HTTP/1.1'' @ [CHR 0x0D, CHR 0x0A] @ ''Upgrade: WebSocket'' @
                   [CHR 0x0D, CHR 0x0A, CHR 0x0D, CHR 0x0A],
           index = 0, buffering = False, bufferSize = 1024\<rparr>,
        RedirectTo = None\<rparr> \<and>
   fst (tls_serve exampleLib tlsOpaque exampleTLS) =
     ToConnChan
       \<lparr>rawConn = \<lparr>segments = [], remoteAddr = ''198.51.100.7:40002''\<rparr>,
        buf = ''0123456789abcdef'', index = 0, buffering = False, bufferSize = 1024\<rparr>"
proof -
  let ?plain = "\<lparr>segments = [''GET /ws HTTP/1.1'' @ [CHR 0x0D, CHR 0x0A] @
                   ''Upgrade: WebSocket'' @ [CHR 0x0D, CHR 0x0A, CHR 0x0D, CHR 0x0A]],
                 remoteAddr = ''198.51.100.7:40001''\<rparr>"
  let ?opaque = "\<lparr>segments = [''0123456789abcdef''], remoteAddr = ''198.51.100.7:40002''\<rparr>"
  have h1: "Handshake exampleLib (SetBufferSize 2048 (NewRewindConn wsUpgrade)) =
              (None,
               \<lparr>rawConn = ?plain, buf = [CHR 0x16, CHR 0x03, CHR 0x01, CHR 0x00, CHR 0x2A],
                index = 5, buffering = True, bufferSize = 2048\<rparr>, ?plain)"
    by (simp add: read_eval example_eval wsUpgrade_def)
  have r1: "ReadRequest exampleLib (SetBufferSize 1024 (NewRewindConn ?plain)) =
              (Inr \<lparr>Upgrade = ''WebSocket'', URLPath = ''/ws''\<rparr>,
               \<lparr>rawConn = \<lparr>segments = [], remoteAddr = ''198.51.100.7:40001''\<rparr>,
                buf = ''GET /ws HTTP/1.1'' @ [CHR 0x0D, CHR 0x0A] @ ''Upgrade: WebSocket'' @
                        [CHR 0x0D, CHR 0x0A, CHR 0x0D, CHR 0x0A],
                index = 40, buffering = True, bufferSize = 1024\<rparr>)"
    by (simp add: read_eval example_eval)
  have h2: "Handshake exampleLib (SetBufferSize 2048 (NewRewindConn tlsOpaque)) =
              (None,
               \<lparr>rawConn = ?opaque, buf = [CHR 0x16, CHR 0x03, CHR 0x01, CHR 0x00, CHR 0x2A],
                index = 5, buffering = True, bufferSize = 2048\<rparr>, ?opaque)"
    by (simp add: read_eval example_eval tlsOpaque_def)
  have r2: "ReadRequest exampleLib (SetBufferSize 1024 (NewRewindConn ?opaque)) =
              (Inl ''malformed HTTP request'',
               \<lparr>rawConn = \<lparr>segments = [], remoteAddr = ''198.51.100.7:40002''\<rparr>,
                buf = ''0123456789abcdef'', index = 16, buffering = True, bufferSize = 1024\<rparr>)"
    by (simp add: read_eval example_eval)
  have n: "nextHTTP (snd (tls_AcceptConn WebsocketTunnel True exampleTLS)) = 1"
    using tls_demux [OF h1 r1, of exampleTLS True] by simp
  show ?thesis
    using tls_demux [OF h1 r1, of "snd (tls_AcceptConn WebsocketTunnel True exampleTLS)"]
      tls_demux [OF h1 r1, of exampleTLS] tls_demux [OF h2 r2, of exampleTLS] n
    by (simp add: exampleTLS_def Rewind_def StopBuffering_def)
qed

lemma tls_serve_tlsDone: "tlsDone (snd (tls_serve lib conn s)) = tlsDone s"
  by (simp add: tls_serve_def Let_def split: prod.splits option.splits sum.splits)

lemma tls_acceptLoop_Inr:
  "fst (tls_acceptLoop lib (Inr conn # rest) s) =
     fst (tls_acceptLoop lib rest (snd (tls_serve lib conn s)))"
  by (simp split: prod.splits)

lemma tls_acceptLoop_conns:
  "fst (tls_acceptLoop lib (map Inr conns) s) = AwaitingAccept"
proof (induction conns arbitrary: s)
  case Nil
  show ?case by simp
next
  case (Cons conn conns)
  show ?case
    using Cons.IH [of "snd (tls_serve lib conn s)"]
    by (simp only: list.map tls_acceptLoop_Inr)
qed

lemma tls_acceptLoop_error:
  "fst (tls_acceptLoop lib (map Inr conns @ Inl err # rest) s) =
     (if tlsDone s then LoopReturned
      else ProcessExited (NewError (''transport accept error'' @ err)))"
proof (induction conns arbitrary: s)
  case Nil
  show ?case by simp
next
  case (Cons conn conns)
  show ?case
    using Cons.IH [of "snd (tls_serve lib conn s)"]
    by (simp only: list.map append_Cons tls_acceptLoop_Inr tls_serve_tlsDone)
qed

lemma trojan_acceptLoop_error:
  "\<not> trojanDone s \<Longrightarrow>
   trojan_acceptLoop lib (Inl err # rest) s =
     trojan_acceptLoop lib rest
       (s\<lparr>logged := logged s @
            [(Error, Base (NewError ''trojan failed to accept conn'') (Some err))]\<rparr>)"
  by (simp add: Let_def)

text \<open>
  Claim C9, as amended. On the TLS server no outcome of a single connection ends the
  accept loop or the process: after any number of accepted connections the loop waits
  for the next one. An accept error ends the loop: when the context is cancelled the
  loop returns, and otherwise the error is passed to \<open>log.Fatal\<close>, which ends the
  process. \<open>AcceptPacket\<close> on the TLS server panics with "not supported"; on the
  WebSocket server it returns the error "not supported".
\<close>

theorem tls_accept_errors:
  "fst (tls_acceptLoop lib (map Inr conns) s) = AwaitingAccept \<and>
   fst (tls_acceptLoop lib (map Inr conns @ Inl err # rest) s) =
     (if tlsDone s then LoopReturned
      else ProcessExited (NewError (''transport accept error'' @ err))) \<and>
   tls_AcceptPacket s t = Panic ''not supported'' \<and>
   ws_AcceptPacket ws t = Returns (Inl (NewError ''not supported''))"
  by (simp add: tls_acceptLoop_conns tls_acceptLoop_error tls_AcceptPacket_def
      ws_AcceptPacket_def)

text \<open>
  The claim as stated fails on the TLS server: outside shutdown an accept error ends the
  process, and \<open>AcceptPacket\<close> panics.
\<close>

theorem tls_accept_errors_counterexample:
  "\<not> tlsDone exampleTLS \<and>
   fst (tls_acceptLoop exampleLib [Inr tlsOpaque, Inl '': too many open files''] exampleTLS) =
     ProcessExited ''transport accept error: too many open files'' \<and>
   tls_AcceptPacket exampleTLS NilTunnel = Panic ''not supported''"
  by (simp add: tls_serve_def read_eval example_eval tlsOpaque_def exampleTLS_def
      tls_AcceptPacket_def split: prod.splits)

section \<open>Properties of loadKeyPair\<close>

lemma loadKeyPair_decrypted:
  assumes "password \<noteq> []" and "ReadFile lib keyPath = Inr keyFile"
    and "pemDecode lib keyFile = Some keyBlock"
    and "DecryptPEMBlock lib keyBlock password = Inr decryptedKey"
  shows "loadKeyPair lib keyPath certPath password = Returns (Inl ''failed to decrypt key'')"
  using assms by (simp add: loadKeyPair_def NewError_def Base_def)

text \<open>
  Claim C6 fails on the code. With the password \<open>hunter2\<close>, under which the key file
  decrypts, \<open>loadKeyPair\<close> returns the error "failed to decrypt key" and no key pair:
  the test after \<open>x509.DecryptPEMBlock\<close> is \<open>err == nil\<close>.
\<close>

theorem loadKeyPair_error_on_success:
  "DecryptPEMBlock exampleX509 \<lparr>Bytes = ''ENCRYPTED KEY''\<rparr> ''hunter2'' = Inr ''KEY'' \<and>
   loadKeyPair exampleX509 ''server.key'' ''server.crt'' ''hunter2'' =
     Returns (Inl ''failed to decrypt key'')"
  by (simp add: loadKeyPair_def exampleX509_def NewError_def Base_def)

section \<open>Properties of the WebSocket server\<close>

text \<open>
  Claim C7. A connection accepted while the feature is disabled is redirected to the
  fallback address and \<open>AcceptConn\<close> returns an error. When the feature is enabled, a
  request whose \<open>Upgrade\<close> header, lowered, is not \<open>websocket\<close> or whose path is not the
  configured path is rewound and redirected to the fallback address, and \<open>AcceptConn\<close>
  returns an error. The upgrade handshake is started only when the feature is enabled and
  the request passes both checks.
\<close>

theorem ws_AcceptConn_checks:
  "(\<not> enabled s \<longrightarrow>
      ws_AcceptConn lib s (Inr conn) =
        (Inl (NewError (''websocket is disabled. redirecting http request from '' @
                        remoteAddr conn)),
         [Redirect \<lparr>InboundConn = Plain conn, RedirectTo = Some (wsRedirAddr s)\<rparr>])) \<and>
   (enabled s \<and> ReadRequest lib (SetBufferSize 512 (NewRewindConn conn)) = (Inr req, rc) \<and>
    (ToLower lib (Upgrade req) \<noteq> ''websocket'' \<or> URLPath req \<noteq> path s) \<longrightarrow>
      ws_AcceptConn lib s (Inr conn) =
        (Inl (NewError (''not a valid websocket handshake request: '' @ remoteAddr conn)),
         [Redirect \<lparr>InboundConn = Rewound (StopBuffering (Rewind rc)),
                    RedirectTo = Some (wsRedirAddr s)\<rparr>]) \<and>
      index (StopBuffering (Rewind rc)) = 0 \<and> buf (StopBuffering (Rewind rc)) = buf rc) \<and>
   (Serve r \<in> set (snd (ws_AcceptConn lib s accepted)) \<longrightarrow>
      enabled s \<and> ToLower lib (Upgrade r) = ''websocket'' \<and> URLPath r = path s \<and>
      (\<exists>conn' rc'. accepted = Inr conn' \<and>
         ReadRequest lib (SetBufferSize 512 (NewRewindConn conn')) = (Inr r, rc')))"
proof -
  have a: "\<not> enabled s \<longrightarrow>
      ws_AcceptConn lib s (Inr conn) =
        (Inl (NewError (''websocket is disabled. redirecting http request from '' @
                        remoteAddr conn)),
         [Redirect \<lparr>InboundConn = Plain conn, RedirectTo = Some (wsRedirAddr s)\<rparr>])"
    by (simp add: ws_AcceptConn_def)
  have b: "enabled s \<and> ReadRequest lib (SetBufferSize 512 (NewRewindConn conn)) = (Inr req, rc) \<and>
    (ToLower lib (Upgrade req) \<noteq> ''websocket'' \<or> URLPath req \<noteq> path s) \<longrightarrow>
      ws_AcceptConn lib s (Inr conn) =
        (Inl (NewError (''not a valid websocket handshake request: '' @ remoteAddr conn)),
         [Redirect \<lparr>InboundConn = Rewound (StopBuffering (Rewind rc)),
                    RedirectTo = Some (wsRedirAddr s)\<rparr>]) \<and>
      index (StopBuffering (Rewind rc)) = 0 \<and> buf (StopBuffering (Rewind rc)) = buf rc"
    by (auto simp: ws_AcceptConn_def Let_def Base_def StopBuffering_Rewind)
  have c: "Serve r \<in> set (snd (ws_AcceptConn lib s accepted)) \<longrightarrow>
      enabled s \<and> ToLower lib (Upgrade r) = ''websocket'' \<and> URLPath r = path s \<and>
      (\<exists>conn' rc'. accepted = Inr conn' \<and>
         ReadRequest lib (SetBufferSize 512 (NewRewindConn conn')) = (Inr r, rc'))"
    by (auto simp: ws_AcceptConn_def Let_def
        split: sum.splits if_splits prod.splits option.splits)
  from a b c show ?thesis by blast
qed

theorem ws_AcceptConn_checks_witness:
  "ws_AcceptConn exampleLib (exampleWS\<lparr>enabled := False\<rparr>) (Inr wsGood) =
     (Inl ''websocket is disabled. redirecting http request from 198.51.100.7:40003'',
      [Redirect \<lparr>InboundConn = Plain wsGood, RedirectTo = Some fallback\<rparr>]) \<and>
   ws_AcceptConn exampleLib exampleWS (Inr wsWrongPath) =
     (Inl ''not a valid websocket handshake request: 198.51.100.7:40004'',
      [Redirect
         \<lparr>InboundConn = Rewound
            \<lparr>rawConn = \<lparr>segments = [], remoteAddr = ''198.51.100.7:40004''\<rparr>,
             buf = ''GET /wrongpath HTTP/1.1'' @ [CHR 0x0D, CHR 0x0A] @ ''Upgrade: WebSocket'' @
                     [CHR 0x0D, CHR 0x0A, CHR 0x0D, CHR 0x0A],
             index = 0, buffering = False, bufferSize = 512\<rparr>,
          RedirectTo = Some fallback\<rparr>]) \<and>
   snd (ws_AcceptConn exampleLib exampleWS (Inr wsGood)) =
     [Serve \<lparr>Upgrade = ''WebSocket'', URLPath = ''/ws''\<rparr>] \<and>
   ToLower exampleLib ''WebSocket'' = ''websocket''"
proof -
  let ?rc = "\<lparr>rawConn = \<lparr>segments = [], remoteAddr = ''198.51.100.7:40004''\<rparr>,
             buf = ''GET /wrongpath HTTP/1.1'' @ [CHR 0x0D, CHR 0x0A] @ ''Upgrade: WebSocket'' @
                     [CHR 0x0D, CHR 0x0A, CHR 0x0D, CHR 0x0A],
             index = 47, buffering = True, bufferSize = 512\<rparr>"
  let ?req = "\<lparr>Upgrade = ''WebSocket'', URLPath = ''/wrongpath''\<rparr>"
  have off: "\<not> enabled (exampleWS\<lparr>enabled := False\<rparr>)" by simp
  have on: "enabled exampleWS" by (simp add: exampleWS_def)
  have rq: "ReadRequest exampleLib (SetBufferSize 512 (NewRewindConn wsWrongPath)) = (Inr ?req, ?rc)"
    by (simp add: read_eval example_eval wsWrongPath_def)
  have bad: "URLPath ?req \<noteq> path exampleWS" by (simp add: exampleWS_def)
  have low: "ToLower exampleLib ''WebSocket'' = ''websocket''"
    by (simp add: exampleLib_def lowerChar_def)
  have good: "snd (ws_AcceptConn exampleLib exampleWS (Inr wsGood)) =
     [Serve \<lparr>Upgrade = ''WebSocket'', URLPath = ''/ws''\<rparr>]"
    by (simp add: ws_AcceptConn_def read_eval example_eval wsGood_def exampleWS_def)
  have started: "Serve \<lparr>Upgrade = ''WebSocket'', URLPath = ''/ws''\<rparr> \<in>
      set (snd (ws_AcceptConn exampleLib exampleWS (Inr wsGood)))"
    using good by simp
  show ?thesis
    using ws_AcceptConn_checks [of "exampleWS\<lparr>enabled := False\<rparr>" exampleLib wsGood] off
      ws_AcceptConn_checks [of exampleWS exampleLib wsWrongPath ?req ?rc] on rq bad
      ws_AcceptConn_checks [of exampleWS exampleLib _ _ _ "\<lparr>Upgrade = ''WebSocket'', URLPath = ''/ws''\<rparr>" "Inr wsGood"] started
      low good
    by (simp add: NewError_def wsGood_def wsWrongPath_def exampleWS_def Rewind_def
        StopBuffering_def)
qed

end
